theory Spec2Isabelle
  imports Main "HOL-Library.Sublist"
begin

section \<open>The environment of dedup\_index.py\<close>

text \<open>
  The script \<^verbatim>\<open>doc/thirdparty/doxygen/dedup_index.py\<close> is a straight line of calls into
  the lxml library and the Python runtime. Its effects are on the file system and on
  standard output, so the model threads a \<open>world\<close> through every call and records each
  call in a trace, in the order the interpreter makes them.

  Files hold text (a \<open>string\<close>): the script opens its output in text mode, so what it
  hands to the runtime are characters. Their encoding into bytes and the translation of
  line ends are the runtime's and are not modelled. The two imports at the top of the
  module and the print to standard output are taken to succeed.
\<close>

type_synonym path = string

definition newline :: char where
  "newline = CHR 0x0A"

text \<open>
  The exceptions the calls of the script can raise: \<open>IndexError\<close> by \<^verbatim>\<open>sys.argv[1]\<close>,
  \<open>OSError\<close> by a file that cannot be read, opened or written, \<open>XMLSyntaxError\<close> by
  \<^verbatim>\<open>ET.parse\<close> on text that is not well-formed, \<open>XSLTParseError\<close> by \<^verbatim>\<open>ET.XSLT\<close> and
  \<open>XSLTApplyError\<close> by the call of the compiled transform.
\<close>

datatype error =
    IndexError
  | OSError path
  | XMLSyntaxError path
  | XSLTParseError
  | XSLTApplyError

datatype event =
    EvParse path
  | EvXSLT
  | EvApply
  | EvOpen path
  | EvWrite path string
  | EvClose path
  | EvStdout string

text \<open>
  The world: the contents of the files, the paths that cannot be opened for writing,
  the number of characters a file can take before the device is full, the text on
  standard output, and the trace of calls made so far.
\<close>

record world =
  files :: "path \<rightharpoonup> string"
  unwritable :: "path \<Rightarrow> bool"
  quota :: nat
  stdout :: string
  trace :: "event list"

text \<open>
  lxml is not part of the repository, so it is a parameter: \<open>xml_of_text\<close> is the XML
  parser on the text of a file (\<open>None\<close>: not well-formed), \<open>xslt_of_tree\<close> is
  \<^verbatim>\<open>ET.XSLT\<close> (\<open>None\<close>: the tree is not a stylesheet), \<open>xslt_run\<close> is the call of a
  compiled transform on a tree (\<open>None\<close>: the transform fails) and \<open>str_of\<close> is the
  string form of a transform result. A transform result is itself a tree, as in lxml.
\<close>

record ('t, 'x) lxml =
  xml_of_text :: "string \<Rightarrow> 't option"
  xslt_of_tree :: "'t \<Rightarrow> 'x option"
  xslt_run :: "'x \<Rightarrow> 't \<Rightarrow> 't option"
  str_of :: "'t \<Rightarrow> string"

type_synonym 'a io = "world \<Rightarrow> (error + 'a) \<times> world"

text \<open>Sequencing of statements: an exception of the first ends the sequence.\<close>

definition seq :: "'a io \<Rightarrow> ('a \<Rightarrow> 'b io) \<Rightarrow> 'b io" where
  "seq m f w = (case m w of (Inl e, w') \<Rightarrow> (Inl e, w') | (Inr a, w') \<Rightarrow> f a w')"

definition log :: "event \<Rightarrow> world \<Rightarrow> world" where
  "log e w = w\<lparr>trace := trace w @ [e]\<rparr>"

subsection \<open>The library and runtime calls\<close>

text \<open>\<^verbatim>\<open>ET.parse(p)\<close>: read the file at \<open>p\<close> and parse its text.\<close>

definition ET_parse :: "('t, 'x) lxml \<Rightarrow> path \<Rightarrow> 't io" where
  "ET_parse L p w =
     (let w1 = log (EvParse p) w in
      case files w1 p of
        None \<Rightarrow> (Inl (OSError p), w1)
      | Some c \<Rightarrow>
          (case xml_of_text L c of
             None \<Rightarrow> (Inl (XMLSyntaxError p), w1)
           | Some t \<Rightarrow> (Inr t, w1)))"

text \<open>\<^verbatim>\<open>ET.XSLT(xslt)\<close>: compile a parsed stylesheet.\<close>

definition ET_XSLT :: "('t, 'x) lxml \<Rightarrow> 't \<Rightarrow> 'x io" where
  "ET_XSLT L xslt w =
     (let w1 = log EvXSLT w in
      case xslt_of_tree L xslt of
        None \<Rightarrow> (Inl XSLTParseError, w1)
      | Some x \<Rightarrow> (Inr x, w1))"

text \<open>\<^verbatim>\<open>transform(doc)\<close>: run the compiled transform.\<close>

definition call_transform :: "('t, 'x) lxml \<Rightarrow> 'x \<Rightarrow> 't \<Rightarrow> 't io" where
  "call_transform L transform doc w =
     (let w1 = log EvApply w in
      case xslt_run L transform doc of
        None \<Rightarrow> (Inl XSLTApplyError, w1)
      | Some r \<Rightarrow> (Inr r, w1))"

text \<open>\<^verbatim>\<open>open(p, 'w')\<close>: fails on a path that cannot be written, truncates the file otherwise.\<close>

definition open_w :: "path \<Rightarrow> unit io" where
  "open_w p w =
     (let w1 = log (EvOpen p) w in
      if unwritable w1 p then (Inl (OSError p), w1)
      else (Inr (), w1\<lparr>files := (files w1)(p \<mapsto> [])\<rparr>))"

text \<open>
  \<^verbatim>\<open>print(x, file=f)\<close> writes the string form of \<open>x\<close> followed by a newline. When the
  device is full the file keeps what fitted and the call raises.
\<close>

definition print_file :: "path \<Rightarrow> string \<Rightarrow> unit io" where
  "print_file p s w =
     (let text = s @ [newline];
          w1 = log (EvWrite p text) w in
      if length text \<le> quota w1 then (Inr (), w1\<lparr>files := (files w1)(p \<mapsto> text)\<rparr>)
      else (Inl (OSError p), w1\<lparr>files := (files w1)(p \<mapsto> take (quota w1) text)\<rparr>))"

definition close_file :: "path \<Rightarrow> world \<Rightarrow> world" where
  "close_file p w = log (EvClose p) w"

text \<open>\<^verbatim>\<open>print(s)\<close>: the string and a newline on standard output.\<close>

definition print_stdout :: "string \<Rightarrow> unit io" where
  "print_stdout s w = (Inr (), (log (EvStdout s) w)\<lparr>stdout := stdout w @ s @ [newline]\<rparr>)"

text \<open>\<^verbatim>\<open>sys.argv[i]\<close> for an index \<open>i \<ge> 0\<close>.\<close>

definition argv_get :: "string list \<Rightarrow> nat \<Rightarrow> string io" where
  "argv_get argv i w = (if i < length argv then (Inr (argv ! i), w) else (Inl IndexError, w))"

section \<open>The script\<close>

text \<open>
  \<^verbatim>\<open>
  def xsl_transform(inDoc, xslFile, outDoc):
      doc = ET.parse(inDoc)
      xslt = ET.parse(xslFile)
      transform = ET.XSLT(xslt)
      transformed_doc = transform(doc)
      with open(outDoc, 'w') as f:
          print(transformed_doc, file=f)
      return
  \<close>
  The \<^verbatim>\<open>with\<close> statement closes the file when its body ends, also by an exception; a
  failed \<^verbatim>\<open>open\<close> leaves nothing to close.
\<close>

definition xsl_transform :: "('t, 'x) lxml \<Rightarrow> path \<Rightarrow> path \<Rightarrow> path \<Rightarrow> unit io" where
  "xsl_transform L inDoc xslFile outDoc =
     seq (ET_parse L inDoc) (\<lambda>doc.
     seq (ET_parse L xslFile) (\<lambda>xslt.
     seq (ET_XSLT L xslt) (\<lambda>transform.
     seq (call_transform L transform doc) (\<lambda>transformed_doc.
     seq (open_w outDoc) (\<lambda>f w.
       case print_file outDoc (str_of L transformed_doc) w of
         (r, w') \<Rightarrow> (r, close_file outDoc w'))))))"

text \<open>The stylesheet path, as the source file has it before CMake configures it.\<close>

definition xsl_path :: path where
  "xsl_path = ''@PROJECT_DOC_DIR@/thirdparty/doxygen/dedup_index.xsl''"

definition confirmation :: string where
  "confirmation = ''Removed duplicated <compound> elements in index.xml''"

text \<open>
  \<^verbatim>\<open>
  def doxy_deduplicate_index(filename):
      xsl_transform(filename,
              "@PROJECT_DOC_DIR@/thirdparty/doxygen/dedup_index.xsl", filename)
      print('Removed duplicated <compound> elements in index.xml')
  \<close>
\<close>

definition doxy_deduplicate_index :: "('t, 'x) lxml \<Rightarrow> path \<Rightarrow> unit io" where
  "doxy_deduplicate_index L filename =
     seq (xsl_transform L filename xsl_path filename) (\<lambda>_.
     print_stdout confirmation)"

text \<open>The module body: \<^verbatim>\<open>doxy_deduplicate_index(sys.argv[1])\<close>.\<close>

definition script :: "('t, 'x) lxml \<Rightarrow> string list \<Rightarrow> unit io" where
  "script L argv = seq (argv_get argv 1) (\<lambda>filename. doxy_deduplicate_index L filename)"

text \<open>
  The process: the interpreter exits with status 1 when an exception reaches the top
  level and with status 0 when the module body ends.
\<close>

definition run_process :: "('t, 'x) lxml \<Rightarrow> string list \<Rightarrow> world \<Rightarrow> int \<times> world" where
  "run_process L argv w =
     (case script L argv w of
        (Inl e, w') \<Rightarrow> (1, w')
      | (Inr _, w') \<Rightarrow> (0, w'))"

section \<open>Reading a trace\<close>

text \<open>The events a run has added to the trace.\<close>

definition new_events :: "world \<Rightarrow> world \<Rightarrow> event list" where
  "new_events w w' = drop (length (trace w)) (trace w')"

text \<open>The path an event opens, writes or closes for writing.\<close>

fun write_target :: "event \<Rightarrow> path option" where
  "write_target (EvOpen p) = Some p"
| "write_target (EvWrite p s) = Some p"
| "write_target (EvClose p) = Some p"
| "write_target _ = None"

fun is_stdout :: "event \<Rightarrow> bool" where
  "is_stdout (EvStdout s) = True"
| "is_stdout _ = False"

text \<open>The calls of a complete run on \<open>filename\<close> that writes \<open>text\<close>, in order.\<close>

definition steps :: "path \<Rightarrow> string \<Rightarrow> event list" where
  "steps filename text =
     [EvParse filename, EvParse xsl_path, EvXSLT, EvApply,
      EvOpen filename, EvWrite filename text, EvClose filename,
      EvStdout confirmation]"

section \<open>Properties of a run\<close>

text \<open>
  The stylesheet is invalid when its file is missing, when its text is not well-formed,
  or when the parsed tree is not a stylesheet.
\<close>

definition stylesheet_invalid :: "('t, 'x) lxml \<Rightarrow> world \<Rightarrow> bool" where
  "stylesheet_invalid L w =
     (case files w xsl_path of
        None \<Rightarrow> True
      | Some s \<Rightarrow>
          (case xml_of_text L s of
             None \<Rightarrow> True
           | Some xslt \<Rightarrow> xslt_of_tree L xslt = None))"

text \<open>The input is invalid when its file is missing or its text is not well-formed.\<close>

definition input_invalid :: "('t, 'x) lxml \<Rightarrow> path \<Rightarrow> world \<Rightarrow> bool" where
  "input_invalid L filename w =
     (case files w filename of
        None \<Rightarrow> True
      | Some c \<Rightarrow> xml_of_text L c = None)"

text \<open>
  None of the calls of a run on \<open>filename\<close> raises: both files are there and parse, the
  stylesheet compiles, the transform returns, the file can be opened for writing and
  the text fits.
\<close>

definition calls_succeed :: "('t, 'x) lxml \<Rightarrow> path \<Rightarrow> world \<Rightarrow> bool" where
  "calls_succeed L filename w =
     (case files w filename of None \<Rightarrow> False | Some c \<Rightarrow>
     (case xml_of_text L c of None \<Rightarrow> False | Some doc \<Rightarrow>
     (case files w xsl_path of None \<Rightarrow> False | Some s \<Rightarrow>
     (case xml_of_text L s of None \<Rightarrow> False | Some xslt \<Rightarrow>
     (case xslt_of_tree L xslt of None \<Rightarrow> False | Some transform \<Rightarrow>
     (case xslt_run L transform doc of None \<Rightarrow> False | Some res \<Rightarrow>
        \<not> unwritable w filename \<and> length (str_of L res @ [newline]) \<le> quota w))))))"

text \<open>What a run has added to standard output.\<close>

definition printed :: "world \<Rightarrow> world \<Rightarrow> string" where
  "printed w w' = drop (length (stdout w)) (stdout w')"




section \<open>A small library and worlds to run the model on\<close>

text \<open>
  A stand-in for lxml, for evaluating the model: a document is a line of one-letter
  entries, an empty file is not well-formed, the only stylesheet is the text
  \<open>dedup\<close>, and its transform keeps one occurrence of every entry (the last).
\<close>

definition toy_lxml :: "(string, unit) lxml" where
  "toy_lxml =
     \<lparr>xml_of_text = (\<lambda>c. if c = [] then None else Some (filter (\<lambda>x. x \<noteq> newline) c)),
      xslt_of_tree = (\<lambda>t. if t = ''dedup'' then Some () else None),
      xslt_run = (\<lambda>x t. Some (remdups (filter (\<lambda>x. x \<noteq> newline) t))),
      str_of = (\<lambda>t. t)\<rparr>"

definition toy_world :: world where
  "toy_world =
     \<lparr>files = [''index.xml'' \<mapsto> ''AAB'', xsl_path \<mapsto> ''dedup'', ''broken.xml'' \<mapsto> [],
               ''other.xml'' \<mapsto> ''CDC''],
      unwritable = (\<lambda>p. False),
      quota = 100,
      stdout = [],
      trace = []\<rparr>"

text \<open>The world after a run on \<open>index.xml\<close>, and after a run on \<open>other.xml\<close>.\<close>

definition toy_after_index :: world where
  "toy_after_index =
     toy_world
       \<lparr>files := (files toy_world)(''index.xml'' \<mapsto> ''AB'' @ [newline]),
        stdout := confirmation @ [newline],
        trace := [EvParse ''index.xml'', EvParse xsl_path, EvXSLT, EvApply,
                  EvOpen ''index.xml'', EvWrite ''index.xml'' (''AB'' @ [newline]),
                  EvClose ''index.xml'', EvStdout confirmation]\<rparr>"

definition toy_after_other :: world where
  "toy_after_other =
     toy_world
       \<lparr>files := (files toy_world)(''other.xml'' \<mapsto> ''DC'' @ [newline]),
        stdout := confirmation @ [newline],
        trace := [EvParse ''other.xml'', EvParse xsl_path, EvXSLT, EvApply,
                  EvOpen ''other.xml'', EvWrite ''other.xml'' (''DC'' @ [newline]),
                  EvClose ''other.xml'', EvStdout confirmation]\<rparr>"

text \<open>A world whose stylesheet file holds something that is not a stylesheet.\<close>

definition toy_world_bad_xsl :: world where
  "toy_world_bad_xsl = toy_world\<lparr>files := (files toy_world)(xsl_path \<mapsto> ''junk'')\<rparr>"





section \<open>Running the model\<close>

lemmas io_defs =
  seq_def log_def ET_parse_def ET_XSLT_def call_transform_def open_w_def print_file_def
  close_file_def print_stdout_def argv_get_def xsl_transform_def doxy_deduplicate_index_def
  script_def run_process_def

lemmas io_splits = option.splits if_splits prod.splits sum.splits

lemmas toy_defs =
  toy_lxml_def toy_world_def toy_after_index_def xsl_path_def newline_def confirmation_def

lemma toy_run_index:
  "doxy_deduplicate_index toy_lxml ''index.xml'' toy_world = (Inr (), toy_after_index)"
  by (simp add: io_defs toy_defs Let_def)

lemma toy_run_other:
  "doxy_deduplicate_index toy_lxml ''other.xml'' toy_world = (Inr (), toy_after_other)"
  by (simp add: io_defs toy_defs toy_after_other_def Let_def)

lemma toy_run_broken:
  "doxy_deduplicate_index toy_lxml ''broken.xml'' toy_world =
     (Inl (XMLSyntaxError ''broken.xml''), toy_world\<lparr>trace := [EvParse ''broken.xml'']\<rparr>)"
  by (simp add: io_defs toy_defs Let_def)

lemma toy_run_bad_xsl:
  "doxy_deduplicate_index toy_lxml ''index.xml'' toy_world_bad_xsl =
     (Inl XSLTParseError,
      toy_world_bad_xsl\<lparr>trace := [EvParse ''index.xml'', EvParse xsl_path, EvXSLT]\<rparr>)"
  by (simp add: io_defs toy_defs toy_world_bad_xsl_def Let_def)

section \<open>Failures before the write\<close>

text \<open>
  C1. If the stylesheet file is missing, is not well-formed or is not a stylesheet,
  \<open>doxy_deduplicate_index\<close> fails, and it does so before the input file is opened for
  writing: the run makes no call that opens, writes or closes a file for writing, so
  the contents of every file, the input file among them, are what they were, and
  nothing is printed.
\<close>

theorem stylesheet_error_before_write:
  "stylesheet_invalid L w \<Longrightarrow> doxy_deduplicate_index L filename w = (r, w') \<Longrightarrow>
     (\<exists>e. r = Inl e) \<and> files w' = files w \<and> stdout w' = stdout w \<and>
     (\<forall>e \<in> set (new_events w w'). write_target e = None)"
  by (auto simp: io_defs Let_def stylesheet_invalid_def new_events_def split: io_splits)

theorem stylesheet_error_before_write_witness:
  "stylesheet_invalid toy_lxml toy_world_bad_xsl \<and>
   doxy_deduplicate_index toy_lxml ''index.xml'' toy_world_bad_xsl =
     (Inl XSLTParseError,
      toy_world_bad_xsl\<lparr>trace := [EvParse ''index.xml'', EvParse xsl_path, EvXSLT]\<rparr>) \<and>
   files (toy_world_bad_xsl\<lparr>trace := [EvParse ''index.xml'', EvParse xsl_path, EvXSLT]\<rparr>)
     ''index.xml'' = Some ''AAB''"
proof -
  have inv: "stylesheet_invalid toy_lxml toy_world_bad_xsl"
    by (simp add: stylesheet_invalid_def toy_defs toy_world_bad_xsl_def)
  from stylesheet_error_before_write [OF inv toy_run_bad_xsl]
  have "files (toy_world_bad_xsl\<lparr>trace := [EvParse ''index.xml'', EvParse xsl_path, EvXSLT]\<rparr>)
          = files toy_world_bad_xsl"
    by blast
  then show ?thesis
    using inv toy_run_bad_xsl by (simp add: toy_world_bad_xsl_def toy_world_def xsl_path_def)
qed

text \<open>
  C5. If the input file is missing or is not well-formed XML, the run fails with the
  error of the parse of the input (\<open>OSError\<close> for the missing file, \<open>XMLSyntaxError\<close>
  otherwise). That parse is the only call made: no write is attempted, and the world
  differs from the one before in its trace only, so no file is created, truncated or
  modified.
\<close>

theorem input_error_leaves_files:
  "input_invalid L filename w \<Longrightarrow>
     doxy_deduplicate_index L filename w =
       (Inl (if files w filename = None then OSError filename else XMLSyntaxError filename),
        w\<lparr>trace := trace w @ [EvParse filename]\<rparr>)"
  by (auto simp: io_defs Let_def input_invalid_def split: io_splits)

theorem input_error_leaves_files_witness:
  "input_invalid toy_lxml ''missing.xml'' toy_world \<and>
   doxy_deduplicate_index toy_lxml ''missing.xml'' toy_world =
     (Inl (OSError ''missing.xml''), toy_world\<lparr>trace := [EvParse ''missing.xml'']\<rparr>) \<and>
   files (toy_world\<lparr>trace := [EvParse ''missing.xml'']\<rparr>) = files toy_world"
proof -
  have inv: "input_invalid toy_lxml ''missing.xml'' toy_world"
    by (simp add: input_invalid_def toy_defs)
  have none: "files toy_world ''missing.xml'' = None"
    by (simp add: toy_defs)
  have nil: "trace toy_world = []"
    by (simp add: toy_defs)
  show ?thesis
    using input_error_leaves_files [OF inv] inv none nil by simp
qed

section \<open>The file that is written\<close>

text \<open>
  C2. In every run of \<open>doxy_deduplicate_index filename\<close> the first call parses
  \<open>filename\<close>, every call that opens, writes or closes a file for writing names
  \<open>filename\<close>, and the contents of every other path are left as they were.
\<close>

theorem writes_only_the_input_path:
  "doxy_deduplicate_index L filename w = (r, w') \<Longrightarrow>
     (\<exists>evs. new_events w w' = EvParse filename # evs \<and>
            (\<forall>e \<in> set evs. \<forall>p. write_target e = Some p \<longrightarrow> p = filename)) \<and>
     (\<forall>q. q \<noteq> filename \<longrightarrow> files w' q = files w q)"
  by (auto simp: io_defs Let_def new_events_def split: io_splits)

theorem writes_only_the_input_path_witness:
  "doxy_deduplicate_index toy_lxml ''index.xml'' toy_world = (Inr (), toy_after_index) \<and>
   new_events toy_world toy_after_index =
     [EvParse ''index.xml'', EvParse xsl_path, EvXSLT, EvApply,
      EvOpen ''index.xml'', EvWrite ''index.xml'' (''AB'' @ [newline]),
      EvClose ''index.xml'', EvStdout confirmation] \<and>
   files toy_after_index ''other.xml'' = files toy_world ''other.xml'' \<and>
   files toy_after_index ''index.xml'' \<noteq> files toy_world ''index.xml''"
proof -
  from writes_only_the_input_path [OF toy_run_index]
  have "files toy_after_index ''other.xml'' = files toy_world ''other.xml''"
    by simp
  then show ?thesis
    using toy_run_index by (simp add: new_events_def toy_after_index_def toy_world_def)
qed

text \<open>
  C3, as the specification states it: on success the text in the input file is the
  string form of the transform result and nothing else. It fails: on the file
  \<open>index.xml\<close> holding \<open>AAB\<close> the run succeeds, the transform result is \<open>AB\<close>, and the
  file holds \<open>AB\<close> followed by a newline.
\<close>

theorem written_text_verbatim_counterexample:
  "doxy_deduplicate_index toy_lxml ''index.xml'' toy_world = (Inr (), toy_after_index) \<and>
   files toy_world ''index.xml'' = Some ''AAB'' \<and>
   xml_of_text toy_lxml ''AAB'' = Some ''AAB'' \<and>
   xslt_run toy_lxml () ''AAB'' = Some ''AB'' \<and>
   files toy_after_index ''index.xml'' \<noteq> Some (str_of toy_lxml ''AB'') \<and>
   files toy_after_index ''index.xml'' = Some (str_of toy_lxml ''AB'' @ [newline])"
  using toy_run_index by (simp add: toy_defs)

text \<open>
  C3, amended. On success the text in the input file is the string form of the
  transform result followed by one newline, the line end that \<^verbatim>\<open>print\<close> appends, and
  nothing else; the transform result is that of the transform compiled from the
  stylesheet file, run on the tree parsed from the input file.
\<close>

theorem written_text_is_result_and_newline:
  "doxy_deduplicate_index L filename w = (Inr (), w') \<Longrightarrow>
     \<exists>c doc s xslt transform res.
        files w filename = Some c \<and> xml_of_text L c = Some doc \<and>
        files w xsl_path = Some s \<and> xml_of_text L s = Some xslt \<and>
        xslt_of_tree L xslt = Some transform \<and>
        xslt_run L transform doc = Some res \<and>
        files w' filename = Some (str_of L res @ [newline])"
  by (auto simp: io_defs Let_def split: io_splits)

theorem written_text_is_result_and_newline_witness:
  "doxy_deduplicate_index toy_lxml ''other.xml'' toy_world = (Inr (), toy_after_other) \<and>
   (\<exists>c doc s xslt transform res.
      files toy_world ''other.xml'' = Some c \<and> xml_of_text toy_lxml c = Some doc \<and>
      files toy_world xsl_path = Some s \<and> xml_of_text toy_lxml s = Some xslt \<and>
      xslt_of_tree toy_lxml xslt = Some transform \<and>
      xslt_run toy_lxml transform doc = Some res \<and>
      files toy_after_other ''other.xml'' = Some (str_of toy_lxml res @ [newline])) \<and>
   files toy_after_other ''other.xml'' = Some (''DC'' @ [newline])"
  using written_text_is_result_and_newline [OF toy_run_other] toy_run_other
  by (simp add: toy_after_other_def)

section \<open>The order of the calls\<close>

text \<open>
  C4. A successful run makes exactly these calls, in this order: it parses the input
  file, parses the stylesheet file at the fixed path and compiles it, runs the
  transform, opens the input path for writing, writes the text the file holds
  afterwards and closes the file, then prints the confirmation.
\<close>

theorem successful_run_call_order:
  "doxy_deduplicate_index L filename w = (Inr (), w') \<Longrightarrow>
     \<exists>text. files w' filename = Some text \<and>
       trace w' = trace w @
         [EvParse filename, EvParse xsl_path, EvXSLT, EvApply,
          EvOpen filename, EvWrite filename text, EvClose filename,
          EvStdout confirmation]"
  by (auto simp: io_defs Let_def split: io_splits)

theorem successful_run_call_order_witness:
  "doxy_deduplicate_index toy_lxml ''index.xml'' toy_world = (Inr (), toy_after_index) \<and>
   (\<exists>text. files toy_after_index ''index.xml'' = Some text \<and>
      trace toy_after_index = trace toy_world @
        [EvParse ''index.xml'', EvParse xsl_path, EvXSLT, EvApply,
         EvOpen ''index.xml'', EvWrite ''index.xml'' text, EvClose ''index.xml'',
         EvStdout confirmation])"
  using successful_run_call_order [OF toy_run_index] toy_run_index by simp

section \<open>Standard output\<close>

text \<open>
  C8. A successful run adds exactly one line to standard output, the confirmation and
  its line end, and prints it last: the calls before it end with the write to the file
  and the close of the file, and none of them prints. A run that fails adds nothing to
  standard output and makes no call that prints.
\<close>

theorem one_line_after_close:
  "(doxy_deduplicate_index L filename w = (Inr (), w') \<longrightarrow>
      stdout w' = stdout w @ confirmation @ [newline] \<and> newline \<notin> set confirmation \<and>
      (\<exists>pre text.
         new_events w w' =
           pre @ [EvWrite filename text, EvClose filename, EvStdout confirmation] \<and>
         \<not> list_ex is_stdout pre)) \<and>
   (doxy_deduplicate_index L filename w = (Inl e, w') \<longrightarrow>
      stdout w' = stdout w \<and> \<not> list_ex is_stdout (new_events w w'))"
  by (auto simp: io_defs Let_def new_events_def confirmation_def newline_def split: io_splits)

theorem one_line_after_close_witness:
  "doxy_deduplicate_index toy_lxml ''index.xml'' toy_world = (Inr (), toy_after_index) \<and>
   stdout toy_after_index = stdout toy_world @ confirmation @ [newline] \<and>
   doxy_deduplicate_index toy_lxml ''broken.xml'' toy_world =
     (Inl (XMLSyntaxError ''broken.xml''), toy_world\<lparr>trace := [EvParse ''broken.xml'']\<rparr>) \<and>
   stdout (toy_world\<lparr>trace := [EvParse ''broken.xml'']\<rparr>) = stdout toy_world"
  using one_line_after_close [of toy_lxml "''index.xml''" toy_world toy_after_index]
    toy_run_index toy_run_broken
  by simp

text \<open>
  C9. The line a successful run prints is the fixed text
  \<open>Removed duplicated <compound> elements in index.xml\<close> and its line end, whatever
  the library, the file name and the world: two successful runs print the same.
\<close>

theorem confirmation_is_fixed:
  "doxy_deduplicate_index L filename w = (Inr (), w1) \<Longrightarrow>
   doxy_deduplicate_index L' filename' w' = (Inr (), w1') \<Longrightarrow>
     printed w w1 = ''Removed duplicated <compound> elements in index.xml'' @ [newline] \<and>
     printed w' w1' = printed w w1"
  by (auto simp: io_defs Let_def printed_def confirmation_def split: io_splits)

theorem confirmation_is_fixed_witness:
  "doxy_deduplicate_index toy_lxml ''other.xml'' toy_world = (Inr (), toy_after_other) \<and>
   doxy_deduplicate_index toy_lxml ''index.xml'' toy_world = (Inr (), toy_after_index) \<and>
   printed toy_world toy_after_other =
     ''Removed duplicated <compound> elements in index.xml'' @ [newline] \<and>
   printed toy_world toy_after_index = printed toy_world toy_after_other"
  using confirmation_is_fixed [OF toy_run_other toy_run_index] toy_run_other toy_run_index
  by simp

section \<open>Errors and the exit status\<close>

text \<open>
  C6. No call of the script catches an exception or is made a second time, so the exit
  status is 0 or 1, and it is 0 exactly when there is an argument and none of the calls
  raises. With status 0 the module body has ended and the calls made are those of the
  complete sequence, the input file holding the text written. With status 1 an
  exception has reached the top level, the calls made are a proper initial part of the
  complete sequence, each made once, and nothing is printed.
\<close>

theorem errors_reach_the_exit_status:
  "run_process L argv w = (st, w') \<Longrightarrow>
     (st = 0 \<or> st = 1) \<and>
     (st = 0 \<longleftrightarrow> 1 < length argv \<and> calls_succeed L (argv ! 1) w) \<and>
     (st = 0 \<longrightarrow> script L argv w = (Inr (), w') \<and>
        (\<exists>text. files w' (argv ! 1) = Some text \<and>
           new_events w w' = steps (argv ! 1) text)) \<and>
     (st = 1 \<longrightarrow> (\<exists>e. script L argv w = (Inl e, w')) \<and> stdout w' = stdout w \<and>
        (\<exists>filename text. strict_prefix (new_events w w') (steps filename text)))"
  apply (intro conjI)
  subgoal by (auto simp: run_process_def split: io_splits)
  subgoal by (auto simp: io_defs Let_def calls_succeed_def split: io_splits)
  subgoal by (auto simp: io_defs Let_def new_events_def steps_def split: io_splits)
  subgoal
    by (auto simp: io_defs Let_def new_events_def steps_def strict_prefix_def
        split: io_splits)
  done

theorem errors_reach_the_exit_status_witness:
  "run_process toy_lxml [''dedup_index.py'', ''index.xml''] toy_world = (0, toy_after_index) \<and>
   calls_succeed toy_lxml ''index.xml'' toy_world \<and>
   script toy_lxml [''dedup_index.py'', ''index.xml''] toy_world = (Inr (), toy_after_index) \<and>
   new_events toy_world toy_after_index = steps ''index.xml'' (''AB'' @ [newline]) \<and>
   run_process toy_lxml [''dedup_index.py'', ''broken.xml''] toy_world =
     (1, toy_world\<lparr>trace := [EvParse ''broken.xml'']\<rparr>) \<and>
   \<not> calls_succeed toy_lxml ''broken.xml'' toy_world"
proof -
  have run: "run_process toy_lxml [''dedup_index.py'', ''index.xml''] toy_world
               = (0, toy_after_index)"
    using toy_run_index by (simp add: run_process_def script_def seq_def argv_get_def)
  have fail: "run_process toy_lxml [''dedup_index.py'', ''broken.xml''] toy_world
               = (1, toy_world\<lparr>trace := [EvParse ''broken.xml'']\<rparr>)"
    using toy_run_broken by (simp add: run_process_def script_def seq_def argv_get_def)
  from errors_reach_the_exit_status [OF run]
  have ok: "calls_succeed toy_lxml ''index.xml'' toy_world"
    and scr: "script toy_lxml [''dedup_index.py'', ''index.xml''] toy_world
               = (Inr (), toy_after_index)"
    by simp_all
  from errors_reach_the_exit_status [OF fail]
  have bad: "\<not> calls_succeed toy_lxml ''broken.xml'' toy_world"
    by simp
  have "new_events toy_world toy_after_index = steps ''index.xml'' (''AB'' @ [newline])"
    by (simp add: new_events_def steps_def toy_after_index_def toy_world_def)
  with run fail ok scr bad show ?thesis by simp
qed

section \<open>Running the script twice\<close>




section \<open>Missing argument\<close>

text \<open>
  C10. When the program is started without a positional argument, \<^verbatim>\<open>sys.argv[1]\<close>
  raises before any file is read or written: the process exits with status 1, and the
  world (file system, standard output, trace of calls) is the one it started in.
\<close>

theorem no_argument_fails_first:
  "length argv \<le> 1 \<Longrightarrow>
     script L argv w = (Inl IndexError, w) \<and> run_process L argv w = (1, w)"
  by (simp add: script_def run_process_def seq_def argv_get_def)

theorem no_argument_fails_first_witness:
  "length [''dedup_index.py''] \<le> 1 \<and>
   script toy_lxml [''dedup_index.py''] toy_world = (Inl IndexError, toy_world) \<and>
   run_process toy_lxml [''dedup_index.py''] toy_world = (1, toy_world)"
  using no_argument_fails_first [of "[''dedup_index.py'']" toy_lxml toy_world] by simp

end
